theory Spec2Isabelle
  imports Main
begin

section \<open>JavaScript strings\<close>

text \<open>
  A string is a list of code units. The model covers the code units below 256 (ASCII and
  Latin-1), which is what \<^typ>\<open>char\<close> holds; the case mapping and the white space of
  \<open>String.prototype.toLowerCase\<close> and \<open>String.prototype.trim\<close> are those of ECMAScript
  restricted to that range.
\<close>

definition isWhiteSpace :: "char \<Rightarrow> bool" where
  \<comment> \<open>TAB, LF, VT, FF, CR, SP and NBSP: the WhiteSpace and LineTerminator code points below 256.\<close>
  "isWhiteSpace c = (of_char c \<in> {9, 10, 11, 12, 13, 32, 160 :: nat})"

definition toLowerCase_char :: "char \<Rightarrow> char" where
  \<comment> \<open>A..Z and the Latin-1 capitals U+00C0..U+00DE (U+00D7, the multiplication sign, is not a letter).\<close>
  "toLowerCase_char c =
     (let n = of_char c :: nat
      in if (65 \<le> n \<and> n \<le> 90) \<or> (192 \<le> n \<and> n \<le> 222 \<and> n \<noteq> 215)
         then char_of (n + 32) else c)"

definition toLowerCase :: "string \<Rightarrow> string" where
  "toLowerCase s = map toLowerCase_char s"

definition trimStart :: "string \<Rightarrow> string" where
  "trimStart s = dropWhile isWhiteSpace s"

definition trimEnd :: "string \<Rightarrow> string" where
  "trimEnd s = rev (dropWhile isWhiteSpace (rev s))"

definition trim_js :: "string \<Rightarrow> string" where
  "trim_js s = trimEnd (trimStart s)"

text \<open>
  \<open>s.split(sep)\<close> for a one-character separator: the pieces between the separators, in
  order; a string without the separator (the empty string too) gives one piece.
\<close>

fun split_js :: "char \<Rightarrow> string \<Rightarrow> string list" where
  "split_js sep [] = [[]]"
| "split_js sep (c # cs) =
     (if c = sep then [] # split_js sep cs
      else (case split_js sep cs of
              [] \<Rightarrow> [[c]]
            | piece # pieces \<Rightarrow> (c # piece) # pieces))"

definition index0 :: "'a list \<Rightarrow> 'a option" where
  \<comment> \<open>\<open>xs[0]\<close>; \<open>None\<close> is \<open>undefined\<close>.\<close>
  "index0 xs = (case xs of [] \<Rightarrow> None | x # _ \<Rightarrow> Some x)"

definition includes_js :: "'a list \<Rightarrow> 'a \<Rightarrow> bool" where
  "includes_js xs x = (x \<in> set xs)"

definition endsWith :: "string \<Rightarrow> char \<Rightarrow> bool" where
  "endsWith s c = (case rev s of [] \<Rightarrow> False | l # _ \<Rightarrow> l = c)"

section \<open>Thrown values, the logger and the object store\<close>

datatype thrown =
    Error string             \<comment> \<open>an \<open>Error\<close> instance, with its stack\<close>
  | BadRequestException string
  | NonError                 \<comment> \<open>a thrown value that is not an \<open>Error\<close> instance\<close>

definition TypeError :: thrown where
  "TypeError = Error ''TypeError''"

datatype json =
    JString string
  | JArray "json list"
  | JObject "(string \<times> json) list"

record upload_params =
  Bucket :: string
  Key :: string
  Body :: string
  ContentType :: "string option"
  ContentDisposition :: "string option"
  ACL :: "string option"

datatype s3_request =
    HeadBucketCommand string
  | CreateBucketCommand string
  | PutBucketPolicyCommand string json   \<comment> \<open>Bucket, and the document whose \<open>JSON.stringify\<close> is Policy\<close>
  | DeleteObjectCommand string string    \<comment> \<open>Bucket, Key\<close>
  | Upload upload_params

datatype log_level = LOG | ERROR | WARN | DEBUG

text \<open>One constructor for each message template of the service, holding the interpolated values.\<close>

datatype log_message =
    Bucket_already_exists string
  | Bucket_not_found_creating string
  | Bucket_created string
  | Bucket_policy_set string
  | Failed_to_set_bucket_policy string
  | Ensured_prefix_object string
  | Failed_to_ensure_prefix string
  | Sanitized_dangerous_content_type string
  | Uploaded string string
  | Deleted string string

record log_entry =
  level :: log_level
  message :: log_message
  stack :: "string option"

text \<open>
  The object store is outside the program: it answers every request, given the requests
  sent so far (the last one is the request answered), with success (\<open>None\<close>) or with the
  value the SDK call rejects with.
\<close>

type_synonym object_store = "s3_request list \<Rightarrow> thrown option"

record svc_state =
  requests :: "s3_request list"
  logs :: "log_entry list"

type_synonym 'a promise = "svc_state \<Rightarrow> (thrown + 'a) \<times> svc_state"

definition resolve :: "'a \<Rightarrow> 'a promise" where
  "resolve x st = (Inr x, st)"

definition reject :: "thrown \<Rightarrow> 'a promise" where
  "reject e st = (Inl e, st)"

definition await :: "'a promise \<Rightarrow> ('a \<Rightarrow> 'b promise) \<Rightarrow> 'b promise" where
  \<comment> \<open>\<open>const x = await m; f x\<close>: a rejection of \<open>m\<close> skips \<open>f\<close>.\<close>
  "await m f st = (case m st of (Inl e, st') \<Rightarrow> (Inl e, st') | (Inr x, st') \<Rightarrow> f x st')"

definition try_catch :: "'a promise \<Rightarrow> (thrown \<Rightarrow> 'a promise) \<Rightarrow> 'a promise" where
  "try_catch m handler st =
     (case m st of (Inl e, st') \<Rightarrow> handler e st' | (Inr x, st') \<Rightarrow> (Inr x, st'))"

definition send :: "object_store \<Rightarrow> s3_request \<Rightarrow> unit promise" where
  \<comment> \<open>\<open>client.send(command)\<close> and, for an upload, \<open>new Upload(params).done()\<close>\<close>
  "send store req st =
     (let st' = st\<lparr>requests := requests st @ [req]\<rparr>
      in case store (requests st') of None \<Rightarrow> (Inr (), st') | Some e \<Rightarrow> (Inl e, st'))"

definition logger :: "log_level \<Rightarrow> log_message \<Rightarrow> string option \<Rightarrow> unit promise" where
  "logger lv msg stk st =
     (Inr (), st\<lparr>logs := logs st @ [\<lparr>level = lv, message = msg, stack = stk\<rparr>]\<rparr>)"

definition logger_error :: "log_message \<Rightarrow> thrown \<Rightarrow> unit promise" where
  \<comment> \<open>\<open>if (error instanceof Error) logger.error(msg, error.stack) else logger.error(msg)\<close>\<close>
  "logger_error msg err =
     (case err of
        Error stk \<Rightarrow> logger ERROR msg (Some stk)
      | BadRequestException stk \<Rightarrow> logger ERROR msg (Some stk)
      | NonError \<Rightarrow> logger ERROR msg None)"

section \<open>S3Service\<close>

text \<open>
  The fields of \<open>S3Config\<close> are declared as strings and a boolean; the service reads
  \<open>bucket\<close> and \<open>imagePrefix\<close> as strings. The configuration getter fills the same
  record with the run-time values it read (see \<open>AppConfigService\<close> below).
\<close>

record ('s, 'b) S3Config =
  accessEndpoint :: 's
  responseEndpoint :: 's
  region :: 's
  accessKeyId :: 's
  secretAccessKey :: 's
  bucket :: 's
  imagePrefix :: 's
  usePathStyle :: 'b

definition ensureBucketExists :: "object_store \<Rightarrow> string \<Rightarrow> unit promise" where
  "ensureBucketExists store b =
     try_catch
       (await (send store (HeadBucketCommand b))
          (\<lambda>_. logger LOG (Bucket_already_exists b) None))
       (\<lambda>_. await (logger LOG (Bucket_not_found_creating b) None)
          (\<lambda>_. await (send store (CreateBucketCommand b))
          (\<lambda>_. logger LOG (Bucket_created b) None)))"

definition bucket_policy :: "string \<Rightarrow> json" where
  "bucket_policy b =
     JObject
       [(''Version'', JString ''2012-10-17''),
        (''Statement'',
           JArray
             [JObject
                [(''Effect'', JString ''Allow''),
                 (''Principal'', JObject [(''AWS'', JArray [JString ''*''])]),
                 (''Action'', JArray [JString ''s3:GetObject'']),
                 (''Resource'', JArray [JString (''arn:aws:s3:::'' @ b @ ''/*'')])]])]"

definition ensureBucketPolicy :: "object_store \<Rightarrow> string \<Rightarrow> unit promise" where
  "ensureBucketPolicy store b =
     try_catch
       (await (send store (PutBucketPolicyCommand b (bucket_policy b)))
          (\<lambda>_. logger LOG (Bucket_policy_set b) None))
       (\<lambda>error. logger_error (Failed_to_set_bucket_policy b) error)"

definition prefix_key :: "string \<Rightarrow> string" where
  "prefix_key prefix = (if endsWith prefix CHR ''/'' then prefix else prefix @ ''/'')"

definition ensurePrefixObject :: "object_store \<Rightarrow> (string, bool) S3Config \<Rightarrow> string \<Rightarrow> unit promise" where
  "ensurePrefixObject store cfg prefix =
     (let key = prefix_key prefix
      in try_catch
           (await (send store
                     (Upload \<lparr>Bucket = bucket cfg, Key = key, Body = [],
                              ContentType = None, ContentDisposition = None, ACL = None\<rparr>))
              (\<lambda>_. logger LOG (Ensured_prefix_object key) None))
           (\<lambda>error. logger_error (Failed_to_ensure_prefix key) error))"

definition onModuleInit :: "object_store \<Rightarrow> (string, bool) S3Config \<Rightarrow> unit promise" where
  "onModuleInit store cfg =
     await (ensureBucketExists store (bucket cfg))
       (\<lambda>_. await (ensureBucketPolicy store (bucket cfg))
       (\<lambda>_. ensurePrefixObject store cfg (imagePrefix cfg)))"

definition dangerous :: "string list" where
  "dangerous =
     [''text/html'', ''application/xhtml+xml'', ''image/svg+xml'', ''text/xml'',
      ''application/xml'']"

definition sanitizeContentType :: "string \<Rightarrow> string promise" where
  "sanitizeContentType contentType =
     (case index0 (split_js CHR '';'' (toLowerCase contentType)) of
        None \<Rightarrow> reject TypeError
      | Some first \<Rightarrow>
          (let normalized = trim_js first
           in if includes_js dangerous normalized
              then await (logger WARN (Sanitized_dangerous_content_type contentType) None)
                     (\<lambda>_. resolve ''text/plain'')
              else resolve contentType))"

definition uploadObject ::
  "object_store \<Rightarrow> (string, bool) S3Config \<Rightarrow> string \<Rightarrow> string \<Rightarrow> string \<Rightarrow> string promise" where
  "uploadObject store cfg key body contentType =
     await (sanitizeContentType contentType)
       (\<lambda>sanitizedContentType.
          await (send store
                   (Upload \<lparr>Bucket = bucket cfg, Key = key, Body = body,
                            ContentType = Some sanitizedContentType,
                            ContentDisposition = Some ''inline'',
                            ACL = Some ''public-read''\<rparr>))
       (\<lambda>_. await (logger DEBUG (Uploaded (bucket cfg) key) None)
       (\<lambda>_. resolve key)))"

definition uploadImage ::
  "object_store \<Rightarrow> (string, bool) S3Config \<Rightarrow> string \<Rightarrow> string \<Rightarrow> string \<Rightarrow> string promise" where
  "uploadImage store cfg filename body contentType =
     (let key = imagePrefix cfg @ ''/'' @ filename
      in uploadObject store cfg key body contentType)"

definition delete :: "object_store \<Rightarrow> (string, bool) S3Config \<Rightarrow> string \<Rightarrow> unit promise" where
  "delete store cfg key =
     await (send store (DeleteObjectCommand (bucket cfg) key))
       (\<lambda>_. logger DEBUG (Deleted (bucket cfg) key) None)"

text \<open>
  The wording of the specification for the deny list: the media type of a content type is
  the substring before the first semicolon, trimmed, and it is compared in lower case.
\<close>

definition lowercased_media_type :: "string \<Rightarrow> string" where
  "lowercased_media_type contentType =
     toLowerCase (trim_js (takeWhile (\<lambda>c. c \<noteq> CHR '';'') contentType))"

section \<open>AppConfigService\<close>

text \<open>
  The values the configuration service handles at run time: \<open>undefined\<close>, a string or a
  boolean. The Nest configuration service reads the process environment, whose values are
  strings.
\<close>

datatype js_value = Undefined | Str string | Bool bool

type_synonym process_env = "string \<rightharpoonup> string"

definition config_get :: "process_env \<Rightarrow> string \<Rightarrow> js_value" where
  "config_get env key = (case env key of None \<Rightarrow> Undefined | Some v \<Rightarrow> Str v)"

definition getRaw :: "process_env \<Rightarrow> string \<Rightarrow> js_value" where
  "getRaw env key =
     (case config_get env key of
        Str raw \<Rightarrow> (let normalized = trim_js raw
                    in if normalized = [] then Undefined else Str normalized)
      | raw \<Rightarrow> raw)"

definition get :: "process_env \<Rightarrow> string \<Rightarrow> js_value \<Rightarrow> js_value" where
  \<comment> \<open>A default of \<open>Undefined\<close> is the call without a default.\<close>
  "get env key defaultValue =
     (let raw = getRaw env key
      in if raw \<noteq> Undefined then raw
         else if defaultValue \<noteq> Undefined then defaultValue
         else config_get env key)"

record DatabaseConfig =
  url :: js_value

record JwtConfig =
  secret :: js_value
  expiresIn :: js_value

record SecurityConfig =
  backendCorsOrigins :: "string list"
  allowedHosts :: "string list"

definition database :: "process_env \<Rightarrow> DatabaseConfig" where
  "database env = \<lparr>url = get env ''DATABASE_URL'' Undefined\<rparr>"

definition jwt :: "process_env \<Rightarrow> JwtConfig" where
  "jwt env =
     \<lparr>secret = get env ''JWT_SECRET'' (Str ''changeme''),
      expiresIn = get env ''JWT_EXPIRATION'' (Str ''720h'')\<rparr>"

definition client_url :: "process_env \<Rightarrow> js_value" where
  \<comment> \<open>The \<open>url\<close> of the \<open>client\<close> getter; its \<open>cookieDomain\<close> (a URL parse) is not modelled.\<close>
  "client_url env = get env ''CLIENT_URL'' (Str ''http://localhost:3000'')"

definition s3 :: "process_env \<Rightarrow> (js_value, js_value) S3Config" where
  "s3 env =
     \<lparr>accessEndpoint = get env ''S3_ACCESS_ENDPOINT'' (Str ''http://localhost:9000''),
      responseEndpoint = get env ''S3_RESPONSE_ENDPOINT'' (Str ''http://localhost:9000''),
      region = get env ''S3_REGION'' (Str ''ap-northeast-2''),
      accessKeyId = get env ''S3_ACCESS_KEY'' (Str ''minio''),
      secretAccessKey = get env ''S3_SECRET_KEY'' (Str ''minio123''),
      bucket = get env ''S3_BUCKET'' (Str ''jinaq-media''),
      imagePrefix = get env ''S3_IMAGE_PREFIX'' (Str ''images''),
      usePathStyle = get env ''S3_PATH_STYLE'' (Bool True)\<rparr>"

definition nodeEnv :: "process_env \<Rightarrow> js_value" where
  "nodeEnv env = get env ''NODE_ENVIRONMENT'' (Str ''development'')"

definition isProduction :: "process_env \<Rightarrow> bool" where
  "isProduction env = (nodeEnv env = Str ''production'')"

definition Boolean_string :: "string \<Rightarrow> bool" where
  \<comment> \<open>\<open>Boolean(s)\<close> of a string: the empty string alone is falsy.\<close>
  "Boolean_string s = (s \<noteq> [])"

definition security :: "process_env \<Rightarrow> thrown + SecurityConfig" where
  \<comment> \<open>\<open>split\<close> is a method of strings: on any other value the call throws a \<open>TypeError\<close>.\<close>
  "security env =
     (case get env ''SECURITY_ALLOWED_HOSTS'' (Str '''') of
        Str hosts \<Rightarrow>
          (let whitelist =
                 filter Boolean_string (map (\<lambda>ip. trim_js ip) (split_js CHR '','' hosts))
           in case get env ''SECURITY_BACKEND_CORS_ORIGINS'' (Str '''') of
                Str origins \<Rightarrow>
                  Inr \<lparr>backendCorsOrigins = split_js CHR '','' origins,
                       allowedHosts = whitelist\<rparr>
              | _ \<Rightarrow> Inl TypeError)
      | _ \<Rightarrow> Inl TypeError)"

section \<open>SecurityMiddleware\<close>

record FastifyRequest =
  headers_host :: "string option"   \<comment> \<open>\<open>req.headers.host\<close>; \<open>None\<close> when the header is absent\<close>

datatype middleware_outcome = Thrown thrown | NextCalled

definition truthy :: "string option \<Rightarrow> bool" where
  \<comment> \<open>\<open>undefined\<close> and the empty string are falsy.\<close>
  "truthy v = (case v of None \<Rightarrow> False | Some s \<Rightarrow> Boolean_string s)"

definition use :: "process_env \<Rightarrow> FastifyRequest \<Rightarrow> middleware_outcome" where
  "use env req =
     (case security env of
        Inl e \<Rightarrow> Thrown e
      | Inr cfg \<Rightarrow>
          (let allowed = allowedHosts cfg;
               host = (case headers_host req of
                         None \<Rightarrow> None
                       | Some h \<Rightarrow> index0 (split_js CHR '':'' h))
           in if length allowed > 0 \<and> truthy host \<and> \<not> includes_js (map Some allowed) host
              then Thrown (BadRequestException ''Invalid Host Header'')
              else NextCalled))"

section \<open>The menu client\<close>

text \<open>
  \<open>ky\<close> and the \<open>json()\<close> of its response belong to a library outside the program:
  they are parameters. What the service decides is the input string it hands to \<open>ky\<close>
  (it passes no options).
\<close>

definition baseUrl :: string where
  "baseUrl = ''/api/v1/menu''"

definition getMenu :: "(string \<Rightarrow> 'response) \<Rightarrow> ('response \<Rightarrow> 'menu) \<Rightarrow> string \<Rightarrow> 'menu" where
  "getMenu ky json restaurantId = json (ky (baseUrl @ ''/'' @ restaurantId))"

definition MENU_QUERY_KEYS_all :: "string list" where
  "MENU_QUERY_KEYS_all = [''menu'']"

definition MENU_QUERY_KEYS_byRestaurant :: "string \<Rightarrow> string list" where
  "MENU_QUERY_KEYS_byRestaurant restaurantId = MENU_QUERY_KEYS_all @ [restaurantId]"

text \<open>
  A \<open>MaybeRef<string>\<close> is a string or a ref, a cell whose value can be reassigned. The
  cells are the state: reading a ref gives the value its cell holds at that moment.
\<close>

datatype MaybeRef = Plain string | Ref nat

type_synonym cells = "nat \<Rightarrow> string"

definition unref :: "cells \<Rightarrow> MaybeRef \<Rightarrow> string" where
  "unref cs r = (case r of Plain s \<Rightarrow> s | Ref a \<Rightarrow> cs a)"

definition resolvedRestaurantId :: "MaybeRef \<Rightarrow> cells \<Rightarrow> string" where
  \<comment> \<open>\<open>computed(() => unref(restaurantId))\<close>: its \<open>.value\<close>, given the cells when it is read\<close>
  "resolvedRestaurantId restaurantId cs = unref cs restaurantId"

record 'menu query_options =
  queryKey :: "string list"
  queryFn :: "cells \<Rightarrow> 'menu"   \<comment> \<open>the function runs later: it is given the cells of that moment\<close>

definition useGetMenu ::
  "(string \<Rightarrow> 'response) \<Rightarrow> ('response \<Rightarrow> 'menu) \<Rightarrow> MaybeRef \<Rightarrow> cells \<Rightarrow> 'menu query_options"
  where
  \<comment> \<open>The options handed to \<open>useQuery\<close>; \<open>cs\<close> are the cells when the hook is called.\<close>
  "useGetMenu ky json restaurantId cs =
     \<lparr>queryKey = MENU_QUERY_KEYS_byRestaurant (resolvedRestaurantId restaurantId cs),
      queryFn = (\<lambda>later. getMenu ky json (resolvedRestaurantId restaurantId later))\<rparr>"

section \<open>The specification's statements, and example inputs\<close>

definition error_stack :: "thrown \<Rightarrow> string option" where
  \<comment> \<open>What \<open>logger_error\<close> logs beside the message: the stack of an \<open>Error\<close> instance.\<close>
  "error_stack e =
     (case e of
        Error stk \<Rightarrow> Some stk
      | BadRequestException stk \<Rightarrow> Some stk
      | NonError \<Rightarrow> None)"

text \<open>
  The bootstrap as the specification words it: one bucket check (with a CreateBucket request
  only when the HeadBucket request failed), then the policy, then the prefix object, each
  request sent once.
\<close>

definition bootstrap_requests :: "object_store \<Rightarrow> (string, bool) S3Config \<Rightarrow> svc_state \<Rightarrow> s3_request list"
  where
  "bootstrap_requests store cfg st =
     [HeadBucketCommand (bucket cfg)]
     @ (if store (requests st @ [HeadBucketCommand (bucket cfg)]) = None then []
        else [CreateBucketCommand (bucket cfg)])
     @ [PutBucketPolicyCommand (bucket cfg) (bucket_policy (bucket cfg)),
        Upload \<lparr>Bucket = bucket cfg, Key = prefix_key (imagePrefix cfg), Body = [],
                ContentType = None, ContentDisposition = None, ACL = None\<rparr>]"

definition three_bootstrap_steps :: "object_store \<Rightarrow> (string, bool) S3Config \<Rightarrow> svc_state \<Rightarrow> bool"
  where
  "three_bootstrap_steps store cfg st =
     (requests (snd (onModuleInit store cfg st)) = requests st @ bootstrap_requests store cfg st)"

text \<open>
  The host value with a port suffix removed, as the specification words it: a port suffix is
  the last colon of the value followed by decimal digits only; a value without one is left
  as it is.
\<close>

definition digit :: "char \<Rightarrow> bool" where
  "digit c = (c \<in> set ''0123456789'')"

definition port_suffix_removed :: "string \<Rightarrow> string" where
  "port_suffix_removed h =
     (if CHR '':'' \<in> set h \<and> list_all digit (takeWhile (\<lambda>c. c \<noteq> CHR '':'') (rev h))
      then rev (tl (dropWhile (\<lambda>c. c \<noteq> CHR '':'') (rev h)))
      else h)"

text \<open>The rejection condition as the specification words it.\<close>

definition host_not_allowed :: "string list \<Rightarrow> FastifyRequest \<Rightarrow> bool" where
  "host_not_allowed allowed req =
     (allowed \<noteq> [] \<and>
      (case headers_host req of
         None \<Rightarrow> False
       | Some h \<Rightarrow> port_suffix_removed h \<notin> set allowed))"

text \<open>The two lists of the security configuration as the specification words them.\<close>

definition split_trim_nonempty :: "string \<Rightarrow> string list" where
  "split_trim_nonempty v = filter (\<lambda>entry. entry \<noteq> []) (map trim_js (split_js CHR '','' v))"

definition split_only :: "string \<Rightarrow> string list" where
  "split_only v = split_js CHR '','' v"

definition unset_or_blank :: "process_env \<Rightarrow> string \<Rightarrow> bool" where
  "unset_or_blank env key = (case env key of None \<Rightarrow> True | Some v \<Rightarrow> trim_js v = [])"

definition fresh :: svc_state where
  "fresh = \<lparr>requests = [], logs = []\<rparr>"

definition default_cfg :: "(string, bool) S3Config" where
  "default_cfg =
     \<lparr>accessEndpoint = ''http://localhost:9000'', responseEndpoint = ''http://localhost:9000'',
      region = ''ap-northeast-2'', accessKeyId = ''minio'', secretAccessKey = ''minio123'',
      bucket = ''jinaq-media'', imagePrefix = ''images'', usePathStyle = True\<rparr>"

definition accepting_store :: object_store where
  "accepting_store rs = None"

definition refusing_store :: object_store where
  "refusing_store rs = Some (Error ''AccessDenied'')"

definition policy_refusing_store :: object_store where
  \<comment> \<open>The bucket exists; the store refuses bucket policies and accepts everything else.\<close>
  "policy_refusing_store rs =
     (case rev rs of
        PutBucketPolicyCommand b p # _ \<Rightarrow> Some (Error ''NotImplemented'')
      | _ \<Rightarrow> None)"

definition hosts_env :: process_env where
  "hosts_env = [''SECURITY_ALLOWED_HOSTS'' \<mapsto> '' example.com , api.example.com,, '']"

definition ipv6_env :: process_env where
  "ipv6_env = [''SECURITY_ALLOWED_HOSTS'' \<mapsto> ''[::1]'']"

definition cors_env :: process_env where
  "cors_env = [''SECURITY_BACKEND_CORS_ORIGINS'' \<mapsto> ''http://a.com, http://b.com '']"

definition blank_env :: process_env where
  "blank_env = [''JWT_SECRET'' \<mapsto> ''  '', ''NODE_ENVIRONMENT'' \<mapsto> '' production '']"

definition echo_ky :: "string \<Rightarrow> string" where
  \<comment> \<open>A stand-in for \<open>ky\<close> that answers with the input it was given.\<close>
  "echo_ky input = input"

definition cells_at_setup :: cells where
  "cells_at_setup a = ''1''"

definition cells_later :: cells where
  "cells_later a = ''2''"

section \<open>Strings: splitting, trimming and lower case\<close>

lemma split_js_not_Nil: "split_js sep s \<noteq> []"
  by (induction s) (auto split: list.splits)

lemma index0_split_js: "index0 (split_js sep s) = Some (takeWhile (\<lambda>c. c \<noteq> sep) s)"
  by (induction s) (auto simp: index0_def split: list.splits)

lemma of_char_toLowerCase_char:
  "(of_char (toLowerCase_char c) :: nat) =
     (let n = of_char c :: nat
      in if (65 \<le> n \<and> n \<le> 90) \<or> (192 \<le> n \<and> n \<le> 222 \<and> n \<noteq> 215)
         then n + 32 else n)"
  by (auto simp: toLowerCase_char_def Let_def)

lemma toLowerCase_char_semicolon: "toLowerCase_char c = CHR '';'' \<longleftrightarrow> c = CHR '';''"
proof -
  have "toLowerCase_char c = CHR '';'' \<longleftrightarrow>
        (of_char (toLowerCase_char c) :: nat) = of_char CHR '';''"
    by (simp only: of_char_eq_iff)
  also have "\<dots> \<longleftrightarrow> (of_char c :: nat) = of_char CHR '';''"
    by (auto simp: of_char_toLowerCase_char Let_def)
  also have "\<dots> \<longleftrightarrow> c = CHR '';''"
    by (simp only: of_char_eq_iff)
  finally show ?thesis .
qed

lemma isWhiteSpace_toLowerCase_char: "isWhiteSpace (toLowerCase_char c) = isWhiteSpace c"
  unfolding isWhiteSpace_def of_char_toLowerCase_char by (auto simp: Let_def)

lemma trimStart_toLowerCase: "trimStart (toLowerCase s) = toLowerCase (trimStart s)"
  by (simp add: trimStart_def toLowerCase_def dropWhile_map comp_def isWhiteSpace_toLowerCase_char)

lemma trimEnd_toLowerCase: "trimEnd (toLowerCase s) = toLowerCase (trimEnd s)"
  by (simp add: trimEnd_def toLowerCase_def dropWhile_map comp_def isWhiteSpace_toLowerCase_char
      rev_map)

lemma trim_js_toLowerCase: "trim_js (toLowerCase s) = toLowerCase (trim_js s)"
  by (simp add: trim_js_def trimStart_toLowerCase trimEnd_toLowerCase)

lemma takeWhile_toLowerCase:
  "takeWhile (\<lambda>c. c \<noteq> CHR '';'') (toLowerCase s) = toLowerCase (takeWhile (\<lambda>c. c \<noteq> CHR '';'') s)"
  by (simp add: toLowerCase_def takeWhile_map comp_def toLowerCase_char_semicolon)

lemma normalized_eq:
  "map_option trim_js (index0 (split_js CHR '';'' (toLowerCase contentType))) =
     Some (lowercased_media_type contentType)"
  by (simp add: index0_split_js takeWhile_toLowerCase trim_js_toLowerCase lowercased_media_type_def)

section \<open>What each method of S3Service does\<close>

lemma sanitizeContentType_eq:
  "sanitizeContentType contentType st =
     (if lowercased_media_type contentType \<in> set dangerous
      then (Inr ''text/plain'',
            st\<lparr>logs := logs st @
                 [\<lparr>level = WARN, message = Sanitized_dangerous_content_type contentType,
                   stack = None\<rparr>]\<rparr>)
      else (Inr contentType, st))"
  using normalized_eq [of contentType]
  by (auto simp: sanitizeContentType_def includes_js_def await_def logger_def resolve_def
      Let_def split: option.splits)

lemma text_plain_not_dangerous: "lowercased_media_type ''text/plain'' \<notin> set dangerous"
  by code_simp

lemma uploadObject_eq:
  "uploadObject store cfg key body contentType st =
     (case sanitizeContentType contentType st of
        (Inl e, st1) \<Rightarrow> (Inl e, st1)
      | (Inr sanitized, st1) \<Rightarrow>
          (let upload = Upload \<lparr>Bucket = bucket cfg, Key = key, Body = body,
                                ContentType = Some sanitized,
                                ContentDisposition = Some ''inline'',
                                ACL = Some ''public-read''\<rparr>;
               st2 = st1\<lparr>requests := requests st1 @ [upload]\<rparr>
           in case store (requests st2) of
                None \<Rightarrow>
                  (Inr key,
                   st2\<lparr>logs := logs st2 @
                        [\<lparr>level = DEBUG, message = Uploaded (bucket cfg) key, stack = None\<rparr>]\<rparr>)
              | Some e \<Rightarrow> (Inl e, st2)))"
  by (simp add: uploadObject_def await_def send_def logger_def resolve_def Let_def
      split: prod.splits sum.splits option.splits)

lemma ensureBucketExists_eq:
  "ensureBucketExists store b st =
     (let r1 = requests st @ [HeadBucketCommand b]
      in case store r1 of
           None \<Rightarrow>
             (Inr (),
              \<lparr>requests = r1,
               logs = logs st @ [\<lparr>level = LOG, message = Bucket_already_exists b, stack = None\<rparr>]\<rparr>)
         | Some _ \<Rightarrow>
             (let r2 = r1 @ [CreateBucketCommand b];
                  l2 = logs st @
                    [\<lparr>level = LOG, message = Bucket_not_found_creating b, stack = None\<rparr>]
              in case store r2 of
                   None \<Rightarrow>
                     (Inr (),
                      \<lparr>requests = r2,
                       logs = l2 @ [\<lparr>level = LOG, message = Bucket_created b, stack = None\<rparr>]\<rparr>)
                 | Some e \<Rightarrow> (Inl e, \<lparr>requests = r2, logs = l2\<rparr>)))"
  by (simp add: ensureBucketExists_def try_catch_def await_def send_def logger_def Let_def
      split: option.splits)

lemma logger_error_eq:
  "logger_error msg e st =
     (Inr (), st\<lparr>logs := logs st @ [\<lparr>level = ERROR, message = msg, stack = error_stack e\<rparr>]\<rparr>)"
  by (cases e) (simp_all add: logger_error_def logger_def error_stack_def)

lemma ensureBucketPolicy_eq:
  "ensureBucketPolicy store b st =
     (let r1 = requests st @ [PutBucketPolicyCommand b (bucket_policy b)]
      in (Inr (),
          \<lparr>requests = r1,
           logs = logs st @
             [case store r1 of
                None \<Rightarrow> \<lparr>level = LOG, message = Bucket_policy_set b, stack = None\<rparr>
              | Some e \<Rightarrow>
                  \<lparr>level = ERROR, message = Failed_to_set_bucket_policy b,
                   stack = error_stack e\<rparr>]\<rparr>))"
  by (simp add: ensureBucketPolicy_def try_catch_def await_def send_def logger_def
      logger_error_eq Let_def split: option.splits)

lemma ensurePrefixObject_eq:
  "ensurePrefixObject store cfg prefix st =
     (let r1 = requests st @
                 [Upload \<lparr>Bucket = bucket cfg, Key = prefix_key prefix, Body = [],
                          ContentType = None, ContentDisposition = None, ACL = None\<rparr>]
      in (Inr (),
          \<lparr>requests = r1,
           logs = logs st @
             [case store r1 of
                None \<Rightarrow> \<lparr>level = LOG, message = Ensured_prefix_object (prefix_key prefix),
                          stack = None\<rparr>
              | Some e \<Rightarrow>
                  \<lparr>level = ERROR, message = Failed_to_ensure_prefix (prefix_key prefix),
                   stack = error_stack e\<rparr>]\<rparr>))"
  by (simp add: ensurePrefixObject_def try_catch_def await_def send_def logger_def
      logger_error_eq Let_def split: option.splits)

lemma onModuleInit_eq:
  "onModuleInit store cfg st =
     (case ensureBucketExists store (bucket cfg) st of
        (Inl e, st1) \<Rightarrow> (Inl e, st1)
      | (Inr _, st1) \<Rightarrow>
          ensurePrefixObject store cfg (imagePrefix cfg)
            (snd (ensureBucketPolicy store (bucket cfg) st1)))"
  by (simp add: onModuleInit_def await_def ensureBucketPolicy_eq Let_def
      split: prod.splits sum.splits)

section \<open>The claims about S3Service\<close>

text \<open>
  Claim C1. For every content type handed to \<open>uploadObject\<close>, whatever the object store
  answers, the one request sent is an upload whose ContentType is \<open>text/plain\<close> when the
  lowercased media type of the input (the substring before the first semicolon, trimmed) is
  one of the five denied types, and the input unchanged otherwise; this is the value
  \<open>sanitizeContentType\<close> returns.
\<close>

theorem sanitizeContentType_deny_list:
  "fst (sanitizeContentType contentType st) =
     Inr (if lowercased_media_type contentType \<in>
             {''text/html'', ''application/xhtml+xml'', ''image/svg+xml'', ''text/xml'',
              ''application/xml''}
          then ''text/plain'' else contentType)
   \<and> requests (snd (uploadObject store cfg key body contentType st)) =
       requests st @
       [Upload \<lparr>Bucket = bucket cfg, Key = key, Body = body,
                ContentType =
                  Some (if lowercased_media_type contentType \<in>
                           {''text/html'', ''application/xhtml+xml'', ''image/svg+xml'',
                            ''text/xml'', ''application/xml''}
                        then ''text/plain'' else contentType),
                ContentDisposition = Some ''inline'', ACL = Some ''public-read''\<rparr>]"
proof -
  have d: "set dangerous =
      {''text/html'', ''application/xhtml+xml'', ''image/svg+xml'', ''text/xml'',
       ''application/xml''}"
    by (simp add: dangerous_def)
  show ?thesis
    unfolding uploadObject_eq sanitizeContentType_eq d
    by (simp add: Let_def split: option.splits)
qed

theorem sanitizeContentType_deny_list_witness:
  "fst (sanitizeContentType ''Text/HTML ; charset=utf-8'' fresh) = Inr ''text/plain''
   \<and> fst (sanitizeContentType ''image/png'' fresh) = Inr ''image/png''
   \<and> requests (snd (uploadObject accepting_store default_cfg ''images/a.svg'' ''<svg/>''
                      ''image/svg+xml'' fresh)) =
       [Upload \<lparr>Bucket = ''jinaq-media'', Key = ''images/a.svg'', Body = ''<svg/>'',
                ContentType = Some ''text/plain'',
                ContentDisposition = Some ''inline'', ACL = Some ''public-read''\<rparr>]"
proof -
  have a: "lowercased_media_type ''Text/HTML ; charset=utf-8'' = ''text/html''"
    by code_simp
  have b: "lowercased_media_type ''image/png'' = ''image/png''"
    by code_simp
  have c: "lowercased_media_type ''image/svg+xml'' = ''image/svg+xml''"
    by code_simp
  show ?thesis
    using sanitizeContentType_deny_list [of "''Text/HTML ; charset=utf-8''" fresh
        accepting_store default_cfg "''images/a.svg''" "''<svg/>''"]
      sanitizeContentType_deny_list [of "''image/png''" fresh
        accepting_store default_cfg "''images/a.svg''" "''<svg/>''"]
      sanitizeContentType_deny_list [of "''image/svg+xml''" fresh
        accepting_store default_cfg "''images/a.svg''" "''<svg/>''"]
    by (simp add: a b c fresh_def default_cfg_def)
qed

text \<open>
  Claim C10. \<open>sanitizeContentType\<close> is idempotent: sanitizing the result of a
  sanitization gives the same result (and logs nothing more), because \<open>text/plain\<close> is not
  in the deny list.
\<close>

theorem sanitizeContentType_idempotent:
  "await (sanitizeContentType contentType) sanitizeContentType st =
     sanitizeContentType contentType st
   \<and> \<not> includes_js dangerous (lowercased_media_type ''text/plain'')"
  by (simp add: await_def sanitizeContentType_eq text_plain_not_dangerous includes_js_def)

theorem sanitizeContentType_idempotent_witness:
  "await (sanitizeContentType ''image/svg+xml'') sanitizeContentType fresh =
     (Inr ''text/plain'',
      \<lparr>requests = [],
       logs = [\<lparr>level = WARN, message = Sanitized_dangerous_content_type ''image/svg+xml'',
                stack = None\<rparr>]\<rparr>)"
proof -
  have c: "lowercased_media_type ''image/svg+xml'' = ''image/svg+xml''"
    by code_simp
  show ?thesis
    using sanitizeContentType_idempotent [of "''image/svg+xml''" fresh]
    by (simp add: sanitizeContentType_eq c dangerous_def fresh_def)
qed

text \<open>
  Claim C4. \<open>ensureBucketPolicy\<close> and \<open>ensurePrefixObject\<close> never reject: a failure of
  their request is logged as an error and not rethrown. So once the bucket check has passed,
  \<open>onModuleInit\<close> resolves and has sent the policy request and then the prefix upload,
  whatever the store answered to either.
\<close>

theorem bootstrap_failures_caught:
  "fst (ensureBucketPolicy store b st) = Inr ()
   \<and> fst (ensurePrefixObject store cfg prefix st) = Inr ()
   \<and> (store (requests st @ [PutBucketPolicyCommand b (bucket_policy b)]) = Some e \<longrightarrow>
        logs (snd (ensureBucketPolicy store b st)) =
          logs st @ [\<lparr>level = ERROR, message = Failed_to_set_bucket_policy b,
                      stack = error_stack e\<rparr>])
   \<and> (store (requests st @
               [Upload \<lparr>Bucket = bucket cfg, Key = prefix_key prefix, Body = [],
                        ContentType = None, ContentDisposition = None, ACL = None\<rparr>]) = Some e \<longrightarrow>
        logs (snd (ensurePrefixObject store cfg prefix st)) =
          logs st @ [\<lparr>level = ERROR, message = Failed_to_ensure_prefix (prefix_key prefix),
                      stack = error_stack e\<rparr>])
   \<and> (fst (ensureBucketExists store (bucket cfg) st) = Inr () \<longrightarrow>
        fst (onModuleInit store cfg st) = Inr ()
        \<and> requests (snd (onModuleInit store cfg st)) =
            requests (snd (ensureBucketExists store (bucket cfg) st)) @
            [PutBucketPolicyCommand (bucket cfg) (bucket_policy (bucket cfg)),
             Upload \<lparr>Bucket = bucket cfg, Key = prefix_key (imagePrefix cfg), Body = [],
                      ContentType = None, ContentDisposition = None, ACL = None\<rparr>])"
proof -
  have init: "fst (onModuleInit store cfg st) = Inr ()
        \<and> requests (snd (onModuleInit store cfg st)) =
            requests (snd (ensureBucketExists store (bucket cfg) st)) @
            [PutBucketPolicyCommand (bucket cfg) (bucket_policy (bucket cfg)),
             Upload \<lparr>Bucket = bucket cfg, Key = prefix_key (imagePrefix cfg), Body = [],
                      ContentType = None, ContentDisposition = None, ACL = None\<rparr>]"
    if "fst (ensureBucketExists store (bucket cfg) st) = Inr ()"
  proof (cases "ensureBucketExists store (bucket cfg) st")
    case (Pair r st1)
    with that have "r = Inr ()" by simp
    with Pair show ?thesis
      by (simp add: onModuleInit_eq ensurePrefixObject_eq ensureBucketPolicy_eq Let_def)
  qed
  show ?thesis
    using init
    by (simp add: ensureBucketPolicy_eq ensurePrefixObject_eq Let_def)
qed

theorem bootstrap_failures_caught_witness:
  "fst (ensureBucketExists policy_refusing_store (bucket default_cfg) fresh) = Inr ()
   \<and> policy_refusing_store
        (requests fresh @ [PutBucketPolicyCommand ''jinaq-media'' (bucket_policy ''jinaq-media'')])
       = Some (Error ''NotImplemented'')
   \<and> fst (onModuleInit policy_refusing_store default_cfg fresh) = Inr ()
   \<and> requests (snd (onModuleInit policy_refusing_store default_cfg fresh)) =
       [HeadBucketCommand ''jinaq-media'',
        PutBucketPolicyCommand ''jinaq-media'' (bucket_policy ''jinaq-media''),
        Upload \<lparr>Bucket = ''jinaq-media'', Key = ''images/'', Body = [],
                 ContentType = None, ContentDisposition = None, ACL = None\<rparr>]
   \<and> logs (snd (ensureBucketPolicy policy_refusing_store ''jinaq-media'' fresh)) =
       [\<lparr>level = ERROR, message = Failed_to_set_bucket_policy ''jinaq-media'',
         stack = Some ''NotImplemented''\<rparr>]"
proof -
  have head: "ensureBucketExists policy_refusing_store (bucket default_cfg) fresh =
      (Inr (), \<lparr>requests = [HeadBucketCommand ''jinaq-media''],
                logs = [\<lparr>level = LOG, message = Bucket_already_exists ''jinaq-media'',
                         stack = None\<rparr>]\<rparr>)"
    by (simp add: ensureBucketExists_eq policy_refusing_store_def default_cfg_def fresh_def)
  have put: "policy_refusing_store
        (requests fresh @ [PutBucketPolicyCommand ''jinaq-media'' (bucket_policy ''jinaq-media'')])
       = Some (Error ''NotImplemented'')"
    by (simp add: policy_refusing_store_def fresh_def)
  have key: "prefix_key ''images'' = ''images/''"
    by (simp add: prefix_key_def endsWith_def)
  show ?thesis
    using bootstrap_failures_caught [of policy_refusing_store "''jinaq-media''" fresh
        default_cfg "''images''" "Error ''NotImplemented''"] head put
    by (simp add: default_cfg_def fresh_def key error_stack_def)
qed

text \<open>
  Claim C5, as stated, fails: a store that refuses every request (the bucket is missing and
  may not be created) makes \<open>onModuleInit\<close> reject after the HeadBucket and CreateBucket
  requests; neither the policy nor the prefix object is sent.
\<close>

theorem bootstrap_steps_counterexample:
  "\<not> three_bootstrap_steps refusing_store default_cfg fresh
   \<and> onModuleInit refusing_store default_cfg fresh =
       (Inl (Error ''AccessDenied''),
        \<lparr>requests = [HeadBucketCommand ''jinaq-media'', CreateBucketCommand ''jinaq-media''],
         logs = [\<lparr>level = LOG, message = Bucket_not_found_creating ''jinaq-media'',
                  stack = None\<rparr>]\<rparr>)"
  by (simp add: three_bootstrap_steps_def bootstrap_requests_def onModuleInit_eq
      ensureBucketExists_eq refusing_store_def default_cfg_def fresh_def)

text \<open>
  Claim C5, amended. Unless the CreateBucket request fails, \<open>onModuleInit\<close> resolves and
  has sent exactly, in order and each once: the HeadBucket request, a CreateBucket request
  only when HeadBucket failed, the public-read bucket policy, and the upload of a zero-byte
  object whose key is the image prefix ending in a slash. When CreateBucket fails,
  \<open>onModuleInit\<close> rejects with that failure and nothing is sent after CreateBucket.
\<close>

theorem bootstrap_steps_unless_create_fails:
  "(store (requests st @ [HeadBucketCommand (bucket cfg)]) = None
      \<or> store (requests st @ [HeadBucketCommand (bucket cfg), CreateBucketCommand (bucket cfg)]) = None
     \<longrightarrow> three_bootstrap_steps store cfg st \<and> fst (onModuleInit store cfg st) = Inr ())
   \<and> (store (requests st @ [HeadBucketCommand (bucket cfg)]) \<noteq> None
      \<and> store (requests st @ [HeadBucketCommand (bucket cfg), CreateBucketCommand (bucket cfg)]) = Some e
     \<longrightarrow> fst (onModuleInit store cfg st) = Inl e
         \<and> requests (snd (onModuleInit store cfg st)) =
             requests st @ [HeadBucketCommand (bucket cfg), CreateBucketCommand (bucket cfg)])"
  by (auto simp: three_bootstrap_steps_def bootstrap_requests_def onModuleInit_eq
      ensureBucketExists_eq ensureBucketPolicy_eq ensurePrefixObject_eq Let_def
      split: option.splits)

theorem bootstrap_steps_unless_create_fails_witness:
  "accepting_store (requests fresh @ [HeadBucketCommand (bucket default_cfg)]) = None
   \<and> requests (snd (onModuleInit accepting_store default_cfg fresh)) =
       [HeadBucketCommand ''jinaq-media'',
        PutBucketPolicyCommand ''jinaq-media'' (bucket_policy ''jinaq-media''),
        Upload \<lparr>Bucket = ''jinaq-media'', Key = ''images/'', Body = [],
                 ContentType = None, ContentDisposition = None, ACL = None\<rparr>]
   \<and> fst (onModuleInit accepting_store default_cfg fresh) = Inr ()
   \<and> refusing_store (requests fresh @ [HeadBucketCommand (bucket default_cfg)]) \<noteq> None
   \<and> refusing_store (requests fresh @
        [HeadBucketCommand (bucket default_cfg), CreateBucketCommand (bucket default_cfg)])
       = Some (Error ''AccessDenied'')
   \<and> fst (onModuleInit refusing_store default_cfg fresh) = Inl (Error ''AccessDenied'')
   \<and> requests (snd (onModuleInit refusing_store default_cfg fresh)) =
       [HeadBucketCommand ''jinaq-media'', CreateBucketCommand ''jinaq-media'']"
proof -
  have key: "prefix_key ''images'' = ''images/''"
    by (simp add: prefix_key_def endsWith_def)
  have a: "accepting_store (requests fresh @ [HeadBucketCommand (bucket default_cfg)]) = None"
    by (simp add: accepting_store_def)
  have r: "refusing_store (requests fresh @ [HeadBucketCommand (bucket default_cfg)]) \<noteq> None"
    "refusing_store (requests fresh @
        [HeadBucketCommand (bucket default_cfg), CreateBucketCommand (bucket default_cfg)])
       = Some (Error ''AccessDenied'')"
    by (simp_all add: refusing_store_def)
  show ?thesis
    using bootstrap_steps_unless_create_fails [of accepting_store fresh default_cfg]
      bootstrap_steps_unless_create_fails [of refusing_store fresh default_cfg
        "Error ''AccessDenied''"] a r
    by (simp add: three_bootstrap_steps_def bootstrap_requests_def default_cfg_def fresh_def key)
qed

text \<open>
  Claim C8. \<open>uploadImage\<close> sends one upload to the configured bucket under the key made of
  the image prefix, a slash and the file name, and resolves with exactly that key (a
  rejection of the upload by the store is passed on). \<open>delete\<close> sends one DeleteObject
  request for the configured bucket and the given key, unchanged.
\<close>

theorem uploadImage_delete_keys:
  "requests (snd (uploadImage store cfg filename body contentType st)) =
     requests st @
     [Upload \<lparr>Bucket = bucket cfg, Key = imagePrefix cfg @ ''/'' @ filename, Body = body,
              ContentType = Some (if lowercased_media_type contentType \<in> set dangerous
                                  then ''text/plain'' else contentType),
              ContentDisposition = Some ''inline'', ACL = Some ''public-read''\<rparr>]
   \<and> fst (uploadImage store cfg filename body contentType st) =
       (case store (requests (snd (uploadImage store cfg filename body contentType st))) of
          None \<Rightarrow> Inr (imagePrefix cfg @ ''/'' @ filename)
        | Some e \<Rightarrow> Inl e)
   \<and> requests (snd (delete store cfg key st)) =
       requests st @ [DeleteObjectCommand (bucket cfg) key]
   \<and> fst (delete store cfg key st) =
       (case store (requests st @ [DeleteObjectCommand (bucket cfg) key]) of
          None \<Rightarrow> Inr ()
        | Some e \<Rightarrow> Inl e)"
proof -
  have del: "delete store cfg key st =
      (case store (requests st @ [DeleteObjectCommand (bucket cfg) key]) of
         None \<Rightarrow>
           (Inr (),
            \<lparr>requests = requests st @ [DeleteObjectCommand (bucket cfg) key],
             logs = logs st @ [\<lparr>level = DEBUG, message = Deleted (bucket cfg) key,
                                stack = None\<rparr>]\<rparr>)
       | Some e \<Rightarrow>
           (Inl e, st\<lparr>requests := requests st @ [DeleteObjectCommand (bucket cfg) key]\<rparr>))"
    by (simp add: delete_def await_def send_def logger_def Let_def split: option.splits)
  show ?thesis
    by (simp add: uploadImage_def uploadObject_eq sanitizeContentType_eq del Let_def
        split: option.splits)
qed

theorem uploadImage_delete_keys_witness:
  "fst (uploadImage accepting_store default_cfg ''a.png'' ''PNG'' ''image/png'' fresh) =
     Inr ''images/a.png''
   \<and> requests (snd (uploadImage accepting_store default_cfg ''a.png'' ''PNG'' ''image/png'' fresh)) =
       [Upload \<lparr>Bucket = ''jinaq-media'', Key = ''images/a.png'', Body = ''PNG'',
                ContentType = Some ''image/png'',
                ContentDisposition = Some ''inline'', ACL = Some ''public-read''\<rparr>]
   \<and> requests (snd (delete accepting_store default_cfg ''images/a.png'' fresh)) =
       [DeleteObjectCommand ''jinaq-media'' ''images/a.png'']
   \<and> fst (delete accepting_store default_cfg ''images/a.png'' fresh) = Inr ()"
proof -
  have b: "lowercased_media_type ''image/png'' = ''image/png''"
    by code_simp
  show ?thesis
    using uploadImage_delete_keys [of accepting_store default_cfg "''a.png''" "''PNG''"
        "''image/png''" fresh "''images/a.png''"]
    by (simp add: b dangerous_def accepting_store_def default_cfg_def fresh_def)
qed

section \<open>Configuration values: trimming before splitting\<close>

lemma trim_js_Nil: "trim_js [] = []"
  by (simp add: trim_js_def trimStart_def trimEnd_def)

lemma trim_js_Cons_white: "isWhiteSpace c \<Longrightarrow> trim_js (c # s) = trim_js s"
  by (simp add: trim_js_def trimStart_def)

lemma trim_js_snoc_white:
  assumes "isWhiteSpace c"
  shows "trim_js (s @ [c]) = trim_js s"
proof (cases "\<forall>x \<in> set s. isWhiteSpace x")
  case True
  have a: "dropWhile isWhiteSpace s = []"
    using True by (simp add: dropWhile_eq_Nil_conv)
  have "dropWhile isWhiteSpace (s @ [c]) = dropWhile isWhiteSpace [c]"
    using True by (simp add: dropWhile_append2)
  also have "\<dots> = []"
    using assms by simp
  finally show ?thesis
    using a by (simp only: trim_js_def trimStart_def)
next
  case False
  then have "dropWhile isWhiteSpace (s @ [c]) = dropWhile isWhiteSpace s @ [c]"
    by (auto simp: dropWhile_append1)
  then show ?thesis
    using assms by (simp add: trim_js_def trimStart_def trimEnd_def)
qed

lemma split_js_snoc:
  "split_js sep (s @ [c]) =
     (if c = sep then split_js sep s @ [[]]
      else butlast (split_js sep s) @ [last (split_js sep s) @ [c]])"
proof (induction s)
  case Nil
  show ?case by simp
next
  case (Cons x xs)
  obtain p ps where ps: "split_js sep xs = p # ps"
    using split_js_not_Nil [of sep xs] by (cases "split_js sep xs") auto
  show ?case
    using Cons ps by (auto split: list.splits)
qed

lemma map_trim_split_trimStart:
  assumes "\<not> isWhiteSpace sep"
  shows "map trim_js (split_js sep (trimStart v)) = map trim_js (split_js sep v)"
proof (induction v)
  case Nil
  show ?case by (simp add: trimStart_def)
next
  case (Cons c cs)
  show ?case
  proof (cases "isWhiteSpace c")
    case True
    then have "c \<noteq> sep" using assms by auto
    obtain p ps where ps: "split_js sep cs = p # ps"
      using split_js_not_Nil [of sep cs] by (cases "split_js sep cs") auto
    have "trimStart (c # cs) = trimStart cs"
      using True by (simp add: trimStart_def)
    then show ?thesis
      using Cons True \<open>c \<noteq> sep\<close> ps by (simp add: trim_js_Cons_white)
  next
    case False
    then show ?thesis by (simp add: trimStart_def)
  qed
qed

lemma map_trim_split_trimEnd:
  assumes "\<not> isWhiteSpace sep"
  shows "map trim_js (split_js sep (trimEnd v)) = map trim_js (split_js sep v)"
proof (induction v rule: rev_induct)
  case Nil
  show ?case by (simp add: trimEnd_def)
next
  case (snoc c cs)
  show ?case
  proof (cases "isWhiteSpace c")
    case True
    then have "c \<noteq> sep" using assms by auto
    have ne: "split_js sep cs \<noteq> []" by (rule split_js_not_Nil)
    have "trimEnd (cs @ [c]) = trimEnd cs"
      using True by (simp add: trimEnd_def)
    moreover have "map trim_js (split_js sep (cs @ [c])) =
        map trim_js (butlast (split_js sep cs)) @ [trim_js (last (split_js sep cs))]"
      using True \<open>c \<noteq> sep\<close> by (simp add: split_js_snoc trim_js_snoc_white)
    moreover have "\<dots> = map trim_js (butlast (split_js sep cs) @ [last (split_js sep cs)])"
      by simp
    ultimately show ?thesis
      using snoc ne by simp
  next
    case False
    then show ?thesis by (simp add: trimEnd_def)
  qed
qed

lemma map_trim_split_trim:
  "\<not> isWhiteSpace sep \<Longrightarrow> map trim_js (split_js sep (trim_js v)) = map trim_js (split_js sep v)"
  by (simp add: trim_js_def map_trim_split_trimEnd map_trim_split_trimStart)

lemma comma_not_white: "\<not> isWhiteSpace CHR '',''"
  by (simp add: isWhiteSpace_def)

lemma get_with_default:
  "defaultValue \<noteq> Undefined \<Longrightarrow>
   get env key defaultValue =
     (case env key of
        None \<Rightarrow> defaultValue
      | Some v \<Rightarrow> if trim_js v = [] then defaultValue else Str (trim_js v))"
  by (simp add: get_def getRaw_def config_get_def Let_def split: option.splits)

lemma get_unset_or_blank:
  "unset_or_blank env key \<Longrightarrow> defaultValue \<noteq> Undefined \<Longrightarrow> get env key defaultValue = defaultValue"
  by (simp add: get_with_default unset_or_blank_def split: option.splits)

lemma security_eq:
  "security env =
     Inr \<lparr>backendCorsOrigins =
            split_only (trim_js (case env ''SECURITY_BACKEND_CORS_ORIGINS'' of
                                   None \<Rightarrow> '''' | Some v \<Rightarrow> v)),
          allowedHosts =
            (case env ''SECURITY_ALLOWED_HOSTS'' of
               None \<Rightarrow> [] | Some v \<Rightarrow> split_trim_nonempty v)\<rparr>"
proof -
  have hosts: "filter Boolean_string (map trim_js (split_js CHR '','' (trim_js v))) =
      split_trim_nonempty v" for v
    by (simp add: map_trim_split_trim comma_not_white split_trim_nonempty_def
        Boolean_string_def [abs_def])
  have hosts0: "filter Boolean_string (map trim_js (split_js CHR '','' [])) = []"
    by (simp add: trim_js_Nil Boolean_string_def)
  have blank: "split_trim_nonempty v = []" if "trim_js v = []" for v
    using hosts [of v] hosts0 that by simp
  show ?thesis
    by (simp add: security_def get_with_default split_only_def trim_js_Nil hosts hosts0 blank
        Boolean_string_def split: option.splits)
qed

lemma use_eq:
  "security env = Inr cfg \<Longrightarrow>
   use env req =
     (if allowedHosts cfg \<noteq> [] \<and>
         (case headers_host req of
            None \<Rightarrow> False
          | Some h \<Rightarrow>
              takeWhile (\<lambda>c. c \<noteq> CHR '':'') h \<noteq> [] \<and>
              takeWhile (\<lambda>c. c \<noteq> CHR '':'') h \<notin> set (allowedHosts cfg))
      then Thrown (BadRequestException ''Invalid Host Header'')
      else NextCalled)"
  by (auto simp: use_def Let_def index0_split_js truthy_def Boolean_string_def includes_js_def
      split: option.splits)

lemma takeWhile_until: "x \<notin> set xs \<Longrightarrow> takeWhile (\<lambda>c. c \<noteq> x) (xs @ x # ys) = xs"
  by (induction xs) auto

lemma dropWhile_until: "x \<notin> set xs \<Longrightarrow> dropWhile (\<lambda>c. c \<noteq> x) (xs @ x # ys) = x # ys"
  by (induction xs) auto

lemma before_first_colon:
  assumes "CHR '':'' \<notin> set (port_suffix_removed h)"
  shows "takeWhile (\<lambda>c. c \<noteq> CHR '':'') h = port_suffix_removed h"
proof (cases "CHR '':'' \<in> set h")
  case False
  then show ?thesis
    by (auto simp: port_suffix_removed_def takeWhile_eq_all_conv)
next
  case True
  then obtain ys zs where h: "h = ys @ CHR '':'' # zs" and zs: "CHR '':'' \<notin> set zs"
    using split_list_last [of "CHR '':''" h] by blast
  have r: "rev h = rev zs @ CHR '':'' # rev ys"
    by (simp add: h)
  have tw: "takeWhile (\<lambda>c. c \<noteq> CHR '':'') (rev h) = rev zs"
    unfolding r using zs by (simp add: takeWhile_until)
  have dw: "dropWhile (\<lambda>c. c \<noteq> CHR '':'') (rev h) = CHR '':'' # rev ys"
    unfolding r using zs by (simp add: dropWhile_until)
  show ?thesis
  proof (cases "list_all digit (rev zs)")
    case digits: True
    then have removed: "port_suffix_removed h = ys"
      using True by (simp add: port_suffix_removed_def tw dw)
    with assms have "CHR '':'' \<notin> set ys"
      by simp
    then have "takeWhile (\<lambda>c. c \<noteq> CHR '':'') h = ys"
      unfolding h by (simp add: takeWhile_until)
    with removed show ?thesis
      by simp
  next
    case False
    then have "port_suffix_removed h = h"
      by (simp add: port_suffix_removed_def tw)
    with assms True show ?thesis
      by simp
  qed
qed

section \<open>The claims about the security configuration and middleware\<close>

lemma security_hosts_env:
  "security hosts_env =
     Inr \<lparr>backendCorsOrigins = [''''], allowedHosts = [''example.com'', ''api.example.com'']\<rparr>"
proof -
  have "split_trim_nonempty '' example.com , api.example.com,, '' =
      [''example.com'', ''api.example.com'']"
    by code_simp
  moreover have "split_only (trim_js '''') = ['''']"
    by code_simp
  ultimately show ?thesis
    by (simp add: security_eq hosts_env_def)
qed

text \<open>
  Claim C2, as stated, fails: with a non-empty allow list, a request whose Host header is
  present and empty has a host that is not in the list, yet the middleware calls \<open>next()\<close>
  (the empty string is falsy in the guard).
\<close>

theorem host_check_counterexample:
  "security hosts_env =
     Inr \<lparr>backendCorsOrigins = [''''], allowedHosts = [''example.com'', ''api.example.com'']\<rparr>
   \<and> host_not_allowed [''example.com'', ''api.example.com''] \<lparr>headers_host = Some ''''\<rparr>
   \<and> use hosts_env \<lparr>headers_host = Some ''''\<rparr> = NextCalled"
  by (simp add: security_hosts_env use_eq [OF security_hosts_env] host_not_allowed_def
      port_suffix_removed_def)

text \<open>
  Claim C2, amended. For a request without a Host header, or whose Host value is a host
  without a colon, alone or followed by a port suffix (so not an IPv6 literal): the
  middleware throws the bad-request exception \<open>Invalid Host Header\<close> exactly when the
  allow list is non-empty, the request has a Host header, and the host value with the port
  suffix removed is not empty and is not in the allow list; in every other case it calls
  \<open>next()\<close>. Reading the configuration never throws.
\<close>

theorem host_check:
  "(case headers_host req of
      None \<Rightarrow> True
    | Some h \<Rightarrow> CHR '':'' \<notin> set (port_suffix_removed h)) \<Longrightarrow>
   \<exists>cfg. security env = Inr cfg
     \<and> use env req =
         (if allowedHosts cfg \<noteq> [] \<and>
             (case headers_host req of
                None \<Rightarrow> False
              | Some h \<Rightarrow>
                  port_suffix_removed h \<noteq> [] \<and>
                  port_suffix_removed h \<notin> set (allowedHosts cfg))
          then Thrown (BadRequestException ''Invalid Host Header'')
          else NextCalled)"
proof -
  assume form: "case headers_host req of
      None \<Rightarrow> True
    | Some h \<Rightarrow> CHR '':'' \<notin> set (port_suffix_removed h)"
  obtain cfg where cfg: "security env = Inr cfg"
    by (simp add: security_eq)
  have "use env req =
         (if allowedHosts cfg \<noteq> [] \<and>
             (case headers_host req of
                None \<Rightarrow> False
              | Some h \<Rightarrow>
                  port_suffix_removed h \<noteq> [] \<and>
                  port_suffix_removed h \<notin> set (allowedHosts cfg))
          then Thrown (BadRequestException ''Invalid Host Header'')
          else NextCalled)"
  proof (cases "headers_host req")
    case None
    then show ?thesis
      by (simp add: use_eq [OF cfg])
  next
    case (Some h)
    with form have "takeWhile (\<lambda>c. c \<noteq> CHR '':'') h = port_suffix_removed h"
      by (simp add: before_first_colon)
    with Some show ?thesis
      by (simp add: use_eq [OF cfg])
  qed
  with cfg show ?thesis
    by blast
qed

theorem host_check_witness:
  "port_suffix_removed ''evil.example:8080'' = ''evil.example''
   \<and> use hosts_env \<lparr>headers_host = Some ''evil.example:8080''\<rparr> =
       Thrown (BadRequestException ''Invalid Host Header'')
   \<and> port_suffix_removed ''example.com:8080'' = ''example.com''
   \<and> use hosts_env \<lparr>headers_host = Some ''example.com:8080''\<rparr> = NextCalled
   \<and> port_suffix_removed '':8080'' = ''''
   \<and> use hosts_env \<lparr>headers_host = Some '':8080''\<rparr> = NextCalled
   \<and> use Map.empty \<lparr>headers_host = Some ''evil.example:8080''\<rparr> = NextCalled
   \<and> use hosts_env \<lparr>headers_host = None\<rparr> = NextCalled"
proof -
  have e: "security Map.empty = Inr \<lparr>backendCorsOrigins = [''''], allowedHosts = []\<rparr>"
  proof -
    have "split_only (trim_js '''') = ['''']"
      by code_simp
    then show ?thesis
      by (simp add: security_eq)
  qed
  have p: "port_suffix_removed ''evil.example:8080'' = ''evil.example''"
    "port_suffix_removed ''example.com:8080'' = ''example.com''"
    "port_suffix_removed '':8080'' = ''''"
    by code_simp+
  show ?thesis
    using host_check [of "\<lparr>headers_host = Some ''evil.example:8080''\<rparr>" hosts_env]
      host_check [of "\<lparr>headers_host = Some ''example.com:8080''\<rparr>" hosts_env]
      host_check [of "\<lparr>headers_host = Some '':8080''\<rparr>" hosts_env]
      host_check [of "\<lparr>headers_host = Some ''evil.example:8080''\<rparr>" Map.empty]
      host_check [of "\<lparr>headers_host = None\<rparr>" hosts_env]
    by (simp add: security_hosts_env e p)
qed

text \<open>
  An IPv6 literal is outside that form. There the middleware compares what stands before the
  first colon of the value: with \<open>[::1]\<close> allowed, a request to \<open>[::1]:3000\<close> is compared as
  \<open>[\<close> and rejected, although its host with the port removed is in the list.
\<close>

lemma ipv6_literal_cut_at_first_colon:
  "security ipv6_env = Inr \<lparr>backendCorsOrigins = [''''], allowedHosts = [''[::1]'']\<rparr>
   \<and> port_suffix_removed ''[::1]:3000'' = ''[::1]''
   \<and> use ipv6_env \<lparr>headers_host = Some ''[::1]:3000''\<rparr> =
       Thrown (BadRequestException ''Invalid Host Header'')"
proof -
  have "split_trim_nonempty ''[::1]'' = [''[::1]'']"
    by code_simp
  moreover have "split_only (trim_js '''') = ['''']"
    by code_simp
  ultimately have s: "security ipv6_env =
      Inr \<lparr>backendCorsOrigins = [''''], allowedHosts = [''[::1]'']\<rparr>"
    by (simp add: security_eq ipv6_env_def)
  have p: "port_suffix_removed ''[::1]:3000'' = ''[::1]''"
    by code_simp
  show ?thesis
    by (simp add: s p use_eq [OF s])
qed

text \<open>
  Claim C3. With a non-empty allow list, a request without a Host header is not rejected:
  the middleware calls \<open>next()\<close>.
\<close>

theorem absent_host_passes:
  "security env = Inr cfg \<Longrightarrow> allowedHosts cfg \<noteq> [] \<Longrightarrow> headers_host req = None \<Longrightarrow>
   use env req = NextCalled"
  by (simp add: use_eq)

theorem absent_host_passes_witness:
  "security hosts_env =
     Inr \<lparr>backendCorsOrigins = [''''], allowedHosts = [''example.com'', ''api.example.com'']\<rparr>
   \<and> use hosts_env \<lparr>headers_host = None\<rparr> = NextCalled"
  using absent_host_passes [OF security_hosts_env, of "\<lparr>headers_host = None\<rparr>"]
  by (simp add: security_hosts_env)

text \<open>
  Claim C6, as stated, fails for the CORS origins: the value is trimmed as a whole before it
  is split, so a value with a trailing blank loses it in the last entry.
\<close>

theorem security_lists_counterexample:
  "cors_env ''SECURITY_BACKEND_CORS_ORIGINS'' = Some ''http://a.com, http://b.com ''
   \<and> split_only ''http://a.com, http://b.com '' = [''http://a.com'', '' http://b.com '']
   \<and> security cors_env =
       Inr \<lparr>backendCorsOrigins = [''http://a.com'', '' http://b.com''], allowedHosts = []\<rparr>
   \<and> security cors_env \<noteq>
       Inr \<lparr>backendCorsOrigins = split_only ''http://a.com, http://b.com '',
            allowedHosts = []\<rparr>"
proof -
  have "split_only ''http://a.com, http://b.com '' = [''http://a.com'', '' http://b.com '']"
    by code_simp
  moreover have "split_only (trim_js ''http://a.com, http://b.com '') =
      [''http://a.com'', '' http://b.com'']"
    by code_simp
  ultimately show ?thesis
    by (simp add: security_eq cors_env_def)
qed

text \<open>
  Claim C6, amended. \<open>allowedHosts\<close> is the value of SECURITY_ALLOWED_HOSTS split at the
  commas, every entry trimmed and every empty entry removed (the empty list when the
  variable is unset). \<open>backendCorsOrigins\<close> is the value of SECURITY_BACKEND_CORS_ORIGINS
  (the empty string when unset), trimmed as a whole and then split at the commas, the
  entries neither trimmed nor removed.
\<close>

theorem security_lists:
  "security env =
     Inr \<lparr>backendCorsOrigins =
            split_only (trim_js (case env ''SECURITY_BACKEND_CORS_ORIGINS'' of
                                   None \<Rightarrow> '''' | Some v \<Rightarrow> v)),
          allowedHosts =
            (case env ''SECURITY_ALLOWED_HOSTS'' of
               None \<Rightarrow> [] | Some v \<Rightarrow> split_trim_nonempty v)\<rparr>"
  by (rule security_eq)

theorem security_lists_witness:
  "security hosts_env =
     Inr \<lparr>backendCorsOrigins = [''''], allowedHosts = [''example.com'', ''api.example.com'']\<rparr>"
proof -
  have "split_trim_nonempty '' example.com , api.example.com,, '' =
      [''example.com'', ''api.example.com'']"
    by code_simp
  moreover have "split_only (trim_js '''') = ['''']"
    by code_simp
  ultimately show ?thesis
    using security_lists [of hosts_env] by (simp add: hosts_env_def)
qed

section \<open>The claims about defaults and the menu client\<close>

text \<open>
  Claim C7. When the environment variable is unset or trims to the empty string,
  \<open>get\<close> returns the declared default, and so does every getter with a default; and
  \<open>isProduction\<close> holds exactly when \<open>nodeEnv\<close> is \<open>production\<close>, that is, when
  NODE_ENVIRONMENT trims to \<open>production\<close>.
\<close>

theorem defaults_returned:
  "(unset_or_blank env key \<and> defaultValue \<noteq> Undefined \<longrightarrow>
      get env key defaultValue = defaultValue)
   \<and> (unset_or_blank env ''JWT_SECRET'' \<longrightarrow> secret (jwt env) = Str ''changeme'')
   \<and> (unset_or_blank env ''JWT_EXPIRATION'' \<longrightarrow> expiresIn (jwt env) = Str ''720h'')
   \<and> (unset_or_blank env ''CLIENT_URL'' \<longrightarrow> client_url env = Str ''http://localhost:3000'')
   \<and> (unset_or_blank env ''S3_ACCESS_ENDPOINT'' \<longrightarrow>
        accessEndpoint (s3 env) = Str ''http://localhost:9000'')
   \<and> (unset_or_blank env ''S3_RESPONSE_ENDPOINT'' \<longrightarrow>
        responseEndpoint (s3 env) = Str ''http://localhost:9000'')
   \<and> (unset_or_blank env ''S3_REGION'' \<longrightarrow> region (s3 env) = Str ''ap-northeast-2'')
   \<and> (unset_or_blank env ''S3_ACCESS_KEY'' \<longrightarrow> accessKeyId (s3 env) = Str ''minio'')
   \<and> (unset_or_blank env ''S3_SECRET_KEY'' \<longrightarrow> secretAccessKey (s3 env) = Str ''minio123'')
   \<and> (unset_or_blank env ''S3_BUCKET'' \<longrightarrow> bucket (s3 env) = Str ''jinaq-media'')
   \<and> (unset_or_blank env ''S3_IMAGE_PREFIX'' \<longrightarrow> imagePrefix (s3 env) = Str ''images'')
   \<and> (unset_or_blank env ''S3_PATH_STYLE'' \<longrightarrow> usePathStyle (s3 env) = Bool True)
   \<and> (unset_or_blank env ''NODE_ENVIRONMENT'' \<longrightarrow> nodeEnv env = Str ''development'')
   \<and> (isProduction env \<longleftrightarrow> nodeEnv env = Str ''production'')
   \<and> (isProduction env \<longleftrightarrow>
        (case env ''NODE_ENVIRONMENT'' of None \<Rightarrow> False | Some v \<Rightarrow> trim_js v = ''production''))"
proof -
  have prod: "isProduction env \<longleftrightarrow>
      (case env ''NODE_ENVIRONMENT'' of None \<Rightarrow> False | Some v \<Rightarrow> trim_js v = ''production'')"
    by (auto simp: isProduction_def nodeEnv_def get_with_default split: option.splits)
  show ?thesis
    using prod
    by (simp add: get_unset_or_blank jwt_def client_url_def s3_def nodeEnv_def isProduction_def)
qed

theorem defaults_returned_witness:
  "unset_or_blank blank_env ''JWT_SECRET'' \<and> secret (jwt blank_env) = Str ''changeme''
   \<and> unset_or_blank blank_env ''JWT_EXPIRATION'' \<and> expiresIn (jwt blank_env) = Str ''720h''
   \<and> unset_or_blank blank_env ''S3_BUCKET'' \<and> bucket (s3 blank_env) = Str ''jinaq-media''
   \<and> blank_env ''NODE_ENVIRONMENT'' = Some '' production ''
   \<and> isProduction blank_env"
proof -
  have t: "trim_js ''  '' = []" "trim_js '' production '' = ''production''"
    by code_simp+
  have u: "unset_or_blank blank_env ''JWT_SECRET''" "unset_or_blank blank_env ''JWT_EXPIRATION''"
    "unset_or_blank blank_env ''S3_BUCKET''"
    by (simp_all add: unset_or_blank_def blank_env_def t)
  have e: "blank_env ''NODE_ENVIRONMENT'' = Some '' production ''"
    by (simp add: blank_env_def)
  note th = defaults_returned [of blank_env "''JWT_SECRET''" "Str ''changeme''"]
  have "secret (jwt blank_env) = Str ''changeme''"
    using th u(1) by simp
  moreover have "expiresIn (jwt blank_env) = Str ''720h''"
    using th u(2) by simp
  moreover have "bucket (s3 blank_env) = Str ''jinaq-media''"
    using th u(3) by simp
  moreover have "isProduction blank_env \<longleftrightarrow>
      (case blank_env ''NODE_ENVIRONMENT'' of None \<Rightarrow> False | Some v \<Rightarrow> trim_js v = ''production'')"
    using th by (elim conjE)
  then have "isProduction blank_env"
    by (simp add: e t)
  ultimately show ?thesis
    using u e by simp
qed

lemma useGetMenu_eq:
  "queryKey (useGetMenu ky json restaurantId cs) = [''menu'', unref cs restaurantId]
   \<and> queryFn (useGetMenu ky json restaurantId cs) later =
       json (ky (''/api/v1/menu/'' @ unref later restaurantId))"
  by (simp add: useGetMenu_def resolvedRestaurantId_def getMenu_def baseUrl_def
      MENU_QUERY_KEYS_byRestaurant_def MENU_QUERY_KEYS_all_def)

lemma useGetMenu_Plain:
  "queryKey (useGetMenu ky json (Plain r) cs) = [''menu'', r]
   \<and> queryFn (useGetMenu ky json (Plain r) cs) later = getMenu ky json r"
  by (simp add: useGetMenu_def resolvedRestaurantId_def unref_def
      MENU_QUERY_KEYS_byRestaurant_def MENU_QUERY_KEYS_all_def)

text \<open>
  Claim C9 asks that the query for a restaurant identifier be cached under the key made of
  \<open>menu\<close> and that identifier. The code breaks this for an identifier given as a ref: the
  key is built once, from the value the ref holds when the hook is called, while the query
  function reads the ref again when it runs. A ref holding \<open>1\<close> at the call and \<open>2\<close> later
  makes the query function ask \<open>ky\<close> for \<open>/api/v1/menu/2\<close>, and the answer is stored under
  the key of restaurant \<open>1\<close>, which is not the key of restaurant \<open>2\<close>.
\<close>

theorem query_key_not_following_ref:
  "queryKey (useGetMenu echo_ky id (Ref 0) cells_at_setup) = [''menu'', ''1'']
   \<and> queryFn (useGetMenu echo_ky id (Ref 0) cells_at_setup) cells_later = ''/api/v1/menu/2''
   \<and> MENU_QUERY_KEYS_byRestaurant ''2'' = [''menu'', ''2'']
   \<and> getMenu echo_ky id ''2'' = ''/api/v1/menu/2''"
  by (simp add: useGetMenu_eq unref_def cells_at_setup_def cells_later_def echo_ky_def
      getMenu_def baseUrl_def MENU_QUERY_KEYS_byRestaurant_def MENU_QUERY_KEYS_all_def)

end
